theory Spec2Isabelle
  imports Complex_Main "HOL-Library.Char_ord" "HOL-Library.List_Lexorder"
begin

section \<open>Python values shared by the modules\<close>

text \<open>
  A posting is a Python dict whose values are text or \<open>None\<close> (a JSON null of the
  provider, a NULL column of the store). The dict is a map from keys to such values:
  a key that is absent maps to \<open>None\<close>, a key bound to Python's \<open>None\<close> maps to
  \<open>Some None\<close>. Text is a list of code points below U+0100 (Latin-1), one
  \<open>char\<close> per code point.
\<close>

type_synonym pystr = "string option"

type_synonym job_data = "string \<rightharpoonup> pystr"

text \<open>\<open>d.get(k)\<close>: the value, or \<open>None\<close> when the key is absent.\<close>

definition dict_get :: "job_data \<Rightarrow> string \<Rightarrow> pystr" where
  "dict_get d k = (case d k of None \<Rightarrow> None | Some v \<Rightarrow> v)"

text \<open>\<open>d.get(k, default)\<close>: the default only stands in for an absent key.\<close>

definition dict_get_default :: "job_data \<Rightarrow> string \<Rightarrow> pystr \<Rightarrow> pystr" where
  "dict_get_default d k dflt = (case d k of None \<Rightarrow> dflt | Some v \<Rightarrow> v)"

text \<open>Truthiness of a text-or-None value: \<open>None\<close> and the empty text are false.\<close>

definition truthy :: "pystr \<Rightarrow> bool" where
  "truthy v = (case v of None \<Rightarrow> False | Some s \<Rightarrow> s \<noteq> [])"

text \<open>
  The exceptions that leave a function of the program: \<open>TypeError\<close> from an
  operation on \<open>None\<close>, \<open>OSError\<close> from a model that cannot be loaded.
\<close>

datatype py_error = TypeError | OSError

section \<open>The posting store (src/database/db\_manager.py)\<close>

text \<open>
  One row of table \<open>jobs\<close>; the primary key \<open>job_id\<close> is the key of the table map.
  Every column but \<open>status\<close> and \<open>retrieved_at\<close> is filled from \<open>job_data.get\<close> and so
  may be NULL.
\<close>

record job_row =
  job_title :: pystr
  company_name :: pystr
  location :: pystr
  job_description :: pystr
  job_url :: pystr
  employer_website :: pystr
  job_employment_type :: pystr
  job_posted_at_datetime_utc :: pystr
  status :: string
  retrieved_at :: string

type_synonym jobs_table = "string \<rightharpoonup> job_row"

text \<open>
  What the SQLite library does outside the program's control: whether
  \<open>sqlite3.connect\<close> succeeds, whether the statement runs or raises
  \<open>sqlite3.Error\<close>, and the value of \<open>CURRENT_TIMESTAMP\<close>.
\<close>

record sqlite_env =
  connect_ok :: bool
  execute_ok :: bool
  current_timestamp :: string

text \<open>
  \<open>_get_connection\<close> returns \<open>None\<close> when connecting raises. Each operation then
  enters \<open>with None as conn\<close>, which raises before the \<open>if conn\<close> test is reached.
\<close>

definition get_connection :: "sqlite_env \<Rightarrow> bool" where
  "get_connection env = connect_ok env"

text \<open>
  \<open>INSERT OR IGNORE\<close>: the row count and the new table. A row whose key is taken is
  skipped; a new row gets the column defaults \<open>'new'\<close> and \<open>CURRENT_TIMESTAMP\<close>.
\<close>

definition insert_or_ignore ::
  "sqlite_env \<Rightarrow> string \<Rightarrow> job_data \<Rightarrow> jobs_table \<Rightarrow> nat \<times> jobs_table" where
  "insert_or_ignore env jid jd tbl =
     (case tbl jid of
        Some _ \<Rightarrow> (0, tbl)
      | None \<Rightarrow>
          (1, tbl(jid \<mapsto>
            \<lparr> job_title = dict_get jd ''job_title'',
              company_name = dict_get jd ''company_name'',
              location = dict_get jd ''job_location'',
              job_description = dict_get jd ''job_description'',
              job_url = dict_get jd ''job_apply_link'',
              employer_website = dict_get jd ''employer_website'',
              job_employment_type = dict_get jd ''job_employment_type'',
              job_posted_at_datetime_utc = dict_get jd ''job_posted_at_datetime_utc'',
              status = ''new'',
              retrieved_at = current_timestamp env \<rparr>)))"

definition insert_job ::
  "sqlite_env \<Rightarrow> job_data \<Rightarrow> jobs_table \<Rightarrow> py_error + (bool \<times> jobs_table)" where
  "insert_job env jd tbl =
     (let job_id = dict_get jd ''job_id'' in
      if \<not> truthy job_id then Inr (False, tbl)
      else if \<not> get_connection env then Inl TypeError
      else if \<not> execute_ok env then Inr (False, tbl)
      else
        (case job_id of
           None \<Rightarrow> Inr (False, tbl)
         | Some jid \<Rightarrow>
             (case insert_or_ignore env jid jd tbl of
                (rowcount, tbl') \<Rightarrow>
                  if rowcount > 0 then Inr (True, tbl') else Inr (False, tbl'))))"

text \<open>\<open>UPDATE jobs SET status = ? WHERE job_id = ?\<close>: the row count and the new table.\<close>

definition update_status_stmt :: "string \<Rightarrow> string \<Rightarrow> jobs_table \<Rightarrow> nat \<times> jobs_table" where
  "update_status_stmt jid new_status tbl =
     (case tbl jid of
        None \<Rightarrow> (0, tbl)
      | Some row \<Rightarrow> (1, tbl(jid \<mapsto> row\<lparr>status := new_status\<rparr>)))"

definition update_job_status ::
  "sqlite_env \<Rightarrow> string \<Rightarrow> string \<Rightarrow> jobs_table \<Rightarrow> py_error + (bool \<times> jobs_table)" where
  "update_job_status env jid new_status tbl =
     (if \<not> get_connection env then Inl TypeError
      else if \<not> execute_ok env then Inr (False, tbl)
      else
        (case update_status_stmt jid new_status tbl of
           (rowcount, tbl') \<Rightarrow>
             if rowcount > 0 then Inr (True, tbl') else Inr (False, tbl')))"

definition get_job_by_id ::
  "sqlite_env \<Rightarrow> string \<Rightarrow> jobs_table \<Rightarrow> py_error + job_row option" where
  "get_job_by_id env jid tbl =
     (if \<not> get_connection env then Inl TypeError
      else if \<not> execute_ok env then Inr None
      else Inr (tbl jid))"

text \<open>The status vocabulary the user interface offers (app.py, \<open>status_options[1:]\<close>).\<close>

definition status_options :: "string list" where
  "status_options = [''new'', ''seen'', ''applied'', ''interviewing'', ''rejected'']"

text \<open>An environment in which the database is reachable and statements run.\<close>

definition healthy_env :: sqlite_env where
  "healthy_env = \<lparr> connect_ok = True, execute_ok = True,
                   current_timestamp = ''2024-01-01 00:00:00'' \<rparr>"

definition sample_job :: job_data where
  "sample_job = [''job_id'' \<mapsto> Some ''j1'', ''job_title'' \<mapsto> Some ''Engineer'']"


section \<open>Text primitives\<close>

text \<open>
  The character classes of Python's \<open>str\<close> methods and of \<open>re\<close> on the code points
  below U+0100. Letters (\<open>str.isalpha\<close>) are A-Z, a-z, U+00AA, U+00B5, U+00BA,
  U+00C0-U+00D6, U+00D8-U+00F6 and U+00F8-U+00FF.
\<close>

definition is_alpha_char :: "char \<Rightarrow> bool" where
  "is_alpha_char c =
     (let n = (of_char c :: nat)
      in (65 \<le> n \<and> n \<le> 90) \<or> (97 \<le> n \<and> n \<le> 122)
         \<or> n = 170 \<or> n = 181 \<or> n = 186
         \<or> (192 \<le> n \<and> n \<le> 214) \<or> (216 \<le> n \<and> n \<le> 246) \<or> (248 \<le> n \<and> n \<le> 255))"

text \<open>
  Decimal, digit and numeric characters: 0-9, the superscripts U+00B2, U+00B3, U+00B9
  and the fractions U+00BC-U+00BE.
\<close>

definition is_numeric_char :: "char \<Rightarrow> bool" where
  "is_numeric_char c =
     (let n = (of_char c :: nat)
      in (48 \<le> n \<and> n \<le> 57) \<or> n = 178 \<or> n = 179 \<or> n = 185
         \<or> (188 \<le> n \<and> n \<le> 190))"

text \<open>
  \<open>str.lower\<close>: A-Z, U+00C0-U+00D6 and U+00D8-U+00DE move up by 32, every other
  code point below U+0100 stays.
\<close>

definition lower_char :: "char \<Rightarrow> char" where
  "lower_char c =
     (let n = (of_char c :: nat)
      in if (65 \<le> n \<and> n \<le> 90) \<or> (192 \<le> n \<and> n \<le> 214) \<or> (216 \<le> n \<and> n \<le> 222)
         then char_of (n + 32) else c)"

definition lower :: "string \<Rightarrow> string" where
  "lower s = map lower_char s"

text \<open>\<open>str.isalpha\<close>: every character is a letter and there is at least one.\<close>

definition isalpha :: "string \<Rightarrow> bool" where
  "isalpha s = (s \<noteq> [] \<and> list_all is_alpha_char s)"

text \<open>
  The class \<open>\w\<close> of a \<open>str\<close> pattern: the alphanumeric characters
  (\<open>str.isalnum\<close>) and the underscore.
\<close>

definition is_word_char :: "char \<Rightarrow> bool" where
  "is_word_char c = (is_alpha_char c \<or> is_numeric_char c \<or> c = CHR ''_'')"

text \<open>
  \<open>\b\<close> at position \<open>i\<close> of \<open>s\<close>: exactly one of the characters before and after
  the position is a word character, the ends of the text counting as non-word.
\<close>

definition word_boundary :: "string \<Rightarrow> nat \<Rightarrow> bool" where
  "word_boundary s i =
     ((0 < i \<and> i \<le> length s \<and> is_word_char (s ! (i - 1)))
        \<noteq> (i < length s \<and> is_word_char (s ! i)))"

text \<open>The pattern \<open>\b + re.escape(pat) + \b\<close> matches \<open>s\<close> from position \<open>i\<close>.\<close>

definition matches_at :: "string \<Rightarrow> string \<Rightarrow> nat \<Rightarrow> bool" where
  "matches_at pat s i =
     (word_boundary s i \<and> take (length pat) (drop i s) = pat
        \<and> word_boundary s (i + length pat))"

text \<open>\<open>re.search(r'\b' + re.escape(pat) + r'\b', s)\<close> finds a match.\<close>

definition re_search_word :: "string \<Rightarrow> string \<Rightarrow> bool" where
  "re_search_word pat s = list_ex (matches_at pat s) [0..<Suc (length s)]"

section \<open>The vocabulary extractor (src/nlp/resume\_parser.py)\<close>

text \<open>
  A spaCy token as far as the program reads it: its text and the stop-word flag.
  \<open>token.is_alpha\<close> is \<open>token.text.isalpha()\<close>. The loaded pipeline maps a text to
  its tokens.
\<close>

record token =
  token_text :: string
  is_stop :: bool

type_synonym language = "string \<Rightarrow> token list"

record resume_parser =
  nlp :: "language option"
  common_skills :: "string list"
  common_keywords :: "string list"
  common_skills_lower :: "string list"
  common_keywords_lower :: "string list"

definition skills_lexicon :: "string list" where
  "skills_lexicon =
     [''CAD'', ''SolidWorks'', ''AutoCAD'', ''Inventor'', ''Fusion 360'', ''CATIA'',
      ''ANSYS'', ''FEA'', ''CFD'', ''Fluent'', ''MATLAB'', ''Simulink'', ''Python'', ''R'',
      ''C++'', ''GD&T'', ''DFM'', ''Lean Manufacturing'', ''Six Sigma'', ''Prototyping'',
      ''3D Printing'', ''CNC Machining'', ''Robotics'', ''Thermodynamics'', ''Fluid Mechanics'',
      ''Heat Transfer'', ''Materials Science'', ''Finite Element Analysis'', ''Design'',
      ''Stress Analysis'', ''Kinematics'', ''Dynamics'', ''Mechatronics'', ''Control Systems'',
      ''Jigs & Fixtures'', ''Manufacturing'', ''Assembly'', ''Solid Modeling'',
      ''Mechanical Design'', ''Tolerance Analysis'', ''Failure Analysis'',
      ''Root Cause Analysis'', ''FMEA'', ''P&ID'']"

definition keywords_lexicon :: "string list" where
  "keywords_lexicon =
     [''design'', ''analysis'', ''development'', ''engineering'', ''systems'', ''project'',
      ''research'', ''testing'', ''prototyping'', ''manufacturing'', ''process'', ''solution'',
      ''optimize'', ''innovate'', ''implement'', ''manage'', ''lead'', ''collaborate'',
      ''technical'', ''mechanical'', ''product'', ''problem-solving'', ''troubleshooting'',
      ''efficiency'', ''performance'', ''quality'', ''simulation'', ''validation'',
      ''documentation'', ''report'', ''technical reports'', ''client'', ''vendor'',
      ''supply chain'']"

text \<open>
  \<open>ResumeParser.__init__\<close>. The argument is the outcome of \<open>spacy.load\<close>: the
  pipeline, or the exception it raised, which the constructor catches.
\<close>

definition ResumeParser_init :: "py_error + language \<Rightarrow> py_error + resume_parser" where
  "ResumeParser_init spacy_load =
     Inr \<lparr> nlp = (case spacy_load of Inr model \<Rightarrow> Some model | Inl e \<Rightarrow> None),
           common_skills = skills_lexicon,
           common_keywords = keywords_lexicon,
           common_skills_lower = map lower skills_lexicon,
           common_keywords_lower = map lower keywords_lexicon \<rparr>"

text \<open>\<open>sorted(list(set(xs)))\<close>.\<close>

definition sorted_set :: "string list \<Rightarrow> string list" where
  "sorted_set xs = sort (remdups xs)"

definition extract_skills :: "resume_parser \<Rightarrow> string \<Rightarrow> string list" where
  "extract_skills self txt =
     (let text_lower = lower txt;
          found_skills = filter (\<lambda>skill. re_search_word skill text_lower)
                           (common_skills_lower self)
      in sorted_set found_skills)"

definition extract_general_keywords :: "resume_parser \<Rightarrow> string \<Rightarrow> string list" where
  "extract_general_keywords self txt =
     (case nlp self of
        None \<Rightarrow> []
      | Some model \<Rightarrow>
          (let doc = model (lower txt);
               tokens = map token_text
                          (filter (\<lambda>t. isalpha (token_text t) \<and> \<not> is_stop t
                                        \<and> length (token_text t) > 2) doc);
               found_keywords =
                 filter (\<lambda>keyword. keyword \<in> set tokens
                                      \<or> list_ex (\<lambda>tok. re_search_word keyword tok) tokens)
                   (common_keywords_lower self)
           in sorted_set found_keywords))"

section \<open>Python floats\<close>

text \<open>
  A Python float is an IEEE 754 binary64 value: a finite double, an infinity
  (\<open>Infty True\<close> is the positive one) or NaN. The finite doubles are the reals
  \<open>m * 2 ^ e\<close> with \<open>|m| < 2 ^ 53\<close> and \<open>-1074 \<le> e \<le> 971\<close>. The sign of a zero is
  not kept: no operation of the program tells the two zeros apart.
\<close>

datatype pyfloat = Fin real | Infty bool | NaN

text \<open>The nearest integer, a tie going to the even one.\<close>

definition round_half_even :: "real \<Rightarrow> int" where
  "round_half_even x =
     (let f = \<lfloor>x\<rfloor>; r = x - of_int f
      in if r < 1 / 2 then f
         else if 1 / 2 < r then f + 1
         else if even f then f else f + 1)"

text \<open>
  The exponent of the last place of the doubles around a magnitude \<open>a\<close>: the least
  \<open>e \<ge> -1074\<close> with \<open>a < 2 ^ (e + 53)\<close>, and 971 for every larger magnitude.
\<close>

primrec exp_from :: "real \<Rightarrow> int \<Rightarrow> nat \<Rightarrow> int" where
  "exp_from a e 0 = e"
| "exp_from a e (Suc n) = (if a < 2 powi (e + 53) then e else exp_from a (e + 1) n)"

definition ulp_exp :: "real \<Rightarrow> int" where
  "ulp_exp x = exp_from \<bar>x\<bar> (- 1074) 2045"

text \<open>Rounding to the nearest multiple of the last place, ties to even.\<close>

definition nearest_double :: "real \<Rightarrow> real" where
  "nearest_double x =
     (let e = ulp_exp x in of_int (round_half_even (x / 2 powi e)) * 2 powi e)"

text \<open>The result of a float operation whose exact value is \<open>x\<close>; it overflows to an infinity.\<close>

definition to_double :: "real \<Rightarrow> pyfloat" where
  "to_double x =
     (let r = nearest_double x in if 2 powi 1024 \<le> \<bar>r\<bar> then Infty (0 < r) else Fin r)"

text \<open>The reals that are finite doubles.\<close>

definition is_double :: "real \<Rightarrow> bool" where
  "is_double x = (nearest_double x = x \<and> \<bar>x\<bar> < 2 powi 1024)"

text \<open>\<open>x * y\<close> and \<open>x + y\<close> on floats.\<close>

fun float_mul :: "pyfloat \<Rightarrow> pyfloat \<Rightarrow> pyfloat" where
  "float_mul (Fin a) (Fin b) = to_double (a * b)"
| "float_mul (Fin a) (Infty s) = (if a = 0 then NaN else Infty (s = (0 < a)))"
| "float_mul (Infty s) (Fin a) = (if a = 0 then NaN else Infty (s = (0 < a)))"
| "float_mul (Infty s) (Infty t) = Infty (s = t)"
| "float_mul NaN y = NaN"
| "float_mul x NaN = NaN"

fun float_add :: "pyfloat \<Rightarrow> pyfloat \<Rightarrow> pyfloat" where
  "float_add (Fin a) (Fin b) = to_double (a + b)"
| "float_add (Fin a) (Infty s) = Infty s"
| "float_add (Infty s) (Fin a) = Infty s"
| "float_add (Infty s) (Infty t) = (if s = t then Infty s else NaN)"
| "float_add NaN y = NaN"
| "float_add x NaN = NaN"

text \<open>\<open>x / c\<close> for a finite non-zero constant \<open>c\<close>.\<close>

definition float_div_by :: "pyfloat \<Rightarrow> real \<Rightarrow> pyfloat" where
  "float_div_by x c =
     (case x of
        Fin a \<Rightarrow> to_double (a / c)
      | Infty s \<Rightarrow> Infty (s = (0 < c))
      | NaN \<Rightarrow> NaN)"

text \<open>
  \<open>round(x, ndigits)\<close> for \<open>ndigits \<ge> 0\<close>: infinities and NaN round to themselves;
  a finite double is rounded, on its exact value, to \<open>ndigits\<close> decimal places with
  ties to even, and the decimal result is read back as the nearest double. Beyond 323
  places the float is returned as it is.
\<close>

definition py_round :: "pyfloat \<Rightarrow> nat \<Rightarrow> pyfloat" where
  "py_round x ndigits =
     (case x of
        Fin a \<Rightarrow>
          if 323 < ndigits then x
          else to_double (of_int (round_half_even (a * 10 ^ ndigits)) / 10 ^ ndigits)
      | _ \<Rightarrow> x)"

section \<open>The semantic matcher (src/nlp/semantic\_matcher.py)\<close>

text \<open>
  The sentence-transformers library: the encoder of the loaded model and
  \<open>util.cos_sim\<close> with \<open>.item()\<close>, which yields a Python float. Both are external.
\<close>

type_synonym embedding = "real list"

record semantic_matcher =
  model_encode :: "string \<Rightarrow> embedding"
  util_cos_sim :: "embedding \<Rightarrow> embedding \<Rightarrow> pyfloat"

text \<open>
  \<open>SemanticMatcher.__init__\<close>: an exception of the model load is logged and raised
  again.
\<close>

definition SemanticMatcher_init ::
  "py_error + semantic_matcher \<Rightarrow> py_error + semantic_matcher" where
  "SemanticMatcher_init model_load =
     (case model_load of Inl e \<Rightarrow> Inl e | Inr m \<Rightarrow> Inr m)"

definition get_embedding :: "semantic_matcher \<Rightarrow> string \<Rightarrow> embedding option" where
  "get_embedding self txt = (if txt = [] then None else Some (model_encode self txt))"

definition calculate_similarity ::
  "semantic_matcher \<Rightarrow> embedding option \<Rightarrow> embedding option \<Rightarrow> pyfloat" where
  "calculate_similarity self embedding1 embedding2 =
     (case (embedding1, embedding2) of
        (Some e1, Some e2) \<Rightarrow> util_cos_sim self e1 e2
      | _ \<Rightarrow> Fin 0)"

definition get_semantic_score :: "semantic_matcher \<Rightarrow> string \<Rightarrow> string \<Rightarrow> pyfloat" where
  "get_semantic_score self text1 text2 =
     (if text1 = [] \<or> text2 = [] then Fin 0
      else calculate_similarity self (get_embedding self text1) (get_embedding self text2))"

section \<open>Configuration (config/settings.py)\<close>

record Settings =
  JSEARCH_API_KEY :: pystr
  DB_PATH :: string
  SEMANTIC_THRESHOLD :: pyfloat
  KEYWORD_WEIGHT :: pyfloat
  SEMANTIC_WEIGHT :: pyfloat
  RESUME_DIR :: string

definition settings :: "pystr \<Rightarrow> Settings" where
  "settings api_key =
     \<lparr> JSEARCH_API_KEY = api_key,
       DB_PATH = ''data/job_database.db'',
       SEMANTIC_THRESHOLD = Fin 0.75,
       KEYWORD_WEIGHT = Fin 0.5,
       SEMANTIC_WEIGHT = Fin 0.5,
       RESUME_DIR = ''resumes/'' \<rparr>"

section \<open>The score combiner (src/matching/job\_matcher.py)\<close>

record job_matcher =
  the_resume_parser :: resume_parser
  the_semantic_matcher :: semantic_matcher

text \<open>\<open>JobMatcher.__init__\<close> builds both components; a raising one aborts it.\<close>

definition JobMatcher_init ::
  "py_error + language \<Rightarrow> py_error + semantic_matcher \<Rightarrow> py_error + job_matcher" where
  "JobMatcher_init spacy_load model_load =
     (case ResumeParser_init spacy_load of
        Inl e \<Rightarrow> Inl e
      | Inr rp \<Rightarrow>
          (case SemanticMatcher_init model_load of
             Inl e \<Rightarrow> Inl e
           | Inr sm \<Rightarrow> Inr \<lparr> the_resume_parser = rp, the_semantic_matcher = sm \<rparr>))"

text \<open>
  \<open>_calculate_keyword_overlap_score\<close>. The value is the exact quotient of the two
  sizes; the float that \<open>intersection / union\<close> returns is the double nearest to
  it, taken where the score enters the float arithmetic of \<open>match_job_to_resume\<close>.
\<close>

definition calculate_keyword_overlap_score :: "string list \<Rightarrow> string list \<Rightarrow> real" where
  "calculate_keyword_overlap_score resume_keywords job_keywords =
     (if resume_keywords = [] \<or> job_keywords = [] then 0
      else
        (let resume_set = set resume_keywords;
             job_set = set job_keywords;
             intersection = card (resume_set \<inter> job_set);
             union = card (resume_set \<union> job_set)
         in if union = 0 then 0 else real intersection / real union))"

text \<open>
  The parsed resume \<open>{'text': ..., 'skills': [...], 'keywords': [...]}\<close>; a field is
  \<open>None\<close> when the dict lacks the key.
\<close>

record resume_parsed_data =
  r_text :: "string option"
  r_skills :: "string list option"
  r_keywords :: "string list option"

text \<open>
  The values of the result dict. \<open>list(set(a).intersection(set(b)))\<close> lists the common
  elements once each in an order Python does not fix; it is kept as the set.
\<close>

datatype pyval = PyFloat pyfloat | PyListOfSet "string set"

type_synonym match_result = "string \<rightharpoonup> pyval"

definition match_job_to_resume ::
  "job_matcher \<Rightarrow> Settings \<Rightarrow> resume_parsed_data \<Rightarrow> job_data \<Rightarrow> py_error + match_result" where
  "match_job_to_resume self cfg resume_data jd =
     (let resume_text = (case r_text resume_data of None \<Rightarrow> [] | Some t \<Rightarrow> t);
          resume_skills = (case r_skills resume_data of None \<Rightarrow> [] | Some l \<Rightarrow> l);
          resume_keywords = (case r_keywords resume_data of None \<Rightarrow> [] | Some l \<Rightarrow> l);
          job_description = dict_get_default jd ''job_description'' (Some []);
          job_title = dict_get_default jd ''job_title'' (Some [])
      in
        if \<not> truthy (Some resume_text) \<or> \<not> truthy job_description then
          Inr [''final_score'' \<mapsto> PyFloat (Fin 0), ''keyword_score'' \<mapsto> PyFloat (Fin 0),
               ''semantic_score'' \<mapsto> PyFloat (Fin 0)]
        else
          (case (job_description, job_title) of
             (Some description, Some title) \<Rightarrow>
               (let job_description_skills =
                      extract_skills (the_resume_parser self) (description @ '' '' @ title);
                    job_description_keywords =
                      extract_general_keywords (the_resume_parser self) description;
                    keyword_score =
                      to_double (calculate_keyword_overlap_score resume_keywords
                                   job_description_keywords);
                    semantic_score =
                      get_semantic_score (the_semantic_matcher self) resume_text description;
                    normalized_semantic_score =
                      float_div_by (float_add semantic_score (Fin 1)) 2;
                    final_score =
                      float_add (float_mul keyword_score (KEYWORD_WEIGHT cfg))
                        (float_mul normalized_semantic_score (SEMANTIC_WEIGHT cfg))
                in Inr [''final_score'' \<mapsto>
                          PyFloat (py_round (float_mul final_score (Fin 100)) 2),
                        ''keyword_score'' \<mapsto>
                          PyFloat (py_round (float_mul keyword_score (Fin 100)) 2),
                        ''semantic_score'' \<mapsto>
                          PyFloat (py_round (float_mul normalized_semantic_score (Fin 100)) 2),
                        ''matched_keywords'' \<mapsto>
                          PyListOfSet (set resume_keywords \<inter> set job_description_keywords)])
           | _ \<Rightarrow> Inl TypeError))"

definition sample_row :: job_row where
  "sample_row =
     \<lparr> job_title = Some ''Engineer'', company_name = None, location = None,
       job_description = None, job_url = None, employer_website = None,
       job_employment_type = None, job_posted_at_datetime_utc = None,
       status = ''new'', retrieved_at = ''2024-01-01 00:00:00'' \<rparr>"

section \<open>Stand-ins for the external models, for example evaluations\<close>

text \<open>A tokenizer that splits at spaces and flags a few function words as stop words.\<close>

fun split_spaces :: "string \<Rightarrow> string \<Rightarrow> string list" where
  "split_spaces acc [] = (if acc = [] then [] else [acc])"
| "split_spaces acc (c # cs) =
     (if c = CHR '' '' then (if acc = [] then [] else [acc]) @ split_spaces [] cs
      else split_spaces (acc @ [c]) cs)"

definition stub_nlp :: language where
  "stub_nlp s =
     map (\<lambda>w. \<lparr> token_text = w, is_stop = (w \<in> set [''and'', ''the'', ''for'']) \<rparr>)
       (split_spaces [] s)"

text \<open>An embedder that only tells equal texts from different ones.\<close>

definition stub_semantic_matcher :: semantic_matcher where
  "stub_semantic_matcher =
     \<lparr> model_encode = (\<lambda>s. [real (length s)]),
       util_cos_sim = (\<lambda>a b. if a = b then Fin 1 else Fin 0) \<rparr>"

definition stub_parser :: resume_parser where
  "stub_parser =
     \<lparr> nlp = Some stub_nlp,
       common_skills = skills_lexicon,
       common_keywords = keywords_lexicon,
       common_skills_lower = map lower skills_lexicon,
       common_keywords_lower = map lower keywords_lexicon \<rparr>"

definition stub_matcher :: job_matcher where
  "stub_matcher =
     \<lparr> the_resume_parser = stub_parser, the_semantic_matcher = stub_semantic_matcher \<rparr>"

definition sample_resume :: resume_parsed_data where
  "sample_resume =
     \<lparr> r_text = Some ''Mechanical design and analysis'',
       r_skills = Some [''design''],
       r_keywords = Some [''analysis'', ''design'', ''mechanical''] \<rparr>"

definition sample_posting :: job_data where
  "sample_posting =
     [''job_id'' \<mapsto> Some ''j1'',
      ''job_title'' \<mapsto> Some ''Test Engineer'',
      ''job_description'' \<mapsto> Some ''Design and testing for mechanical systems'']"

text \<open>Two rows of the store whose title column is NULL, as \<open>get_all_jobs\<close> returns them.\<close>

definition untitled_posting :: job_data where
  "untitled_posting =
     [''job_id'' \<mapsto> Some ''j5'',
      ''job_title'' \<mapsto> None,
      ''job_description'' \<mapsto> Some ''Design and testing for mechanical systems'']"

definition untitled_analyst_posting :: job_data where
  "untitled_analyst_posting =
     [''job_id'' \<mapsto> Some ''j6'',
      ''job_title'' \<mapsto> None,
      ''company_name'' \<mapsto> Some ''Acme'',
      ''job_description'' \<mapsto> Some ''Testing and analysis'']"

definition analyst_posting :: job_data where
  "analyst_posting =
     [''job_id'' \<mapsto> Some ''j7'',
      ''job_title'' \<mapsto> Some ''Analyst'',
      ''job_description'' \<mapsto> Some ''Testing and analysis'']"

definition analyst_resume :: resume_parsed_data where
  "analyst_resume =
     \<lparr> r_text = Some ''Design and analysis'',
       r_skills = Some [''design''],
       r_keywords = Some [''analysis'', ''design''] \<rparr>"

definition empty_posting :: job_data where
  "empty_posting =
     [''job_id'' \<mapsto> Some ''j4'',
      ''job_title'' \<mapsto> Some ''Empty Job'',
      ''job_description'' \<mapsto> Some '''']"

text \<open>The parser the constructor returns when the model load raised.\<close>

definition unloaded_parser :: resume_parser where
  "unloaded_parser = stub_parser\<lparr>nlp := None\<rparr>"

section \<open>Properties of the posting store\<close>

lemma insert_job_present:
  assumes "dict_get jd ''job_id'' = Some jid" "jid \<noteq> []" "tbl jid = Some row"
    and "connect_ok env" "execute_ok env"
  shows "insert_job env jd tbl = Inr (False, tbl)"
  using assms
  by (simp add: insert_job_def truthy_def get_connection_def insert_or_ignore_def)

lemma insert_job_absent:
  assumes "dict_get jd ''job_id'' = Some jid" "jid \<noteq> []" "tbl jid = None"
    and "connect_ok env" "execute_ok env"
  shows "\<exists>tbl'. insert_job env jd tbl = Inr (True, tbl')
           \<and> (\<exists>row. tbl' jid = Some row \<and> status row = ''new'')
           \<and> (\<forall>k. k \<noteq> jid \<longrightarrow> tbl' k = tbl k)"
  using assms
  by (simp add: insert_job_def truthy_def get_connection_def insert_or_ignore_def)

text \<open>
  C9. A posting whose \<open>job_id\<close> is missing, \<open>None\<close> or the empty text is never
  inserted: \<open>insert_job\<close> returns false and the table is the one it was given, whatever
  the state of the database connection.
\<close>

theorem insert_job_no_id:
  assumes "jd ''job_id'' = None \<or> jd ''job_id'' = Some None \<or> jd ''job_id'' = Some (Some [])"
  shows "insert_job env jd tbl = Inr (False, tbl)"
  using assms
  by (auto simp: insert_job_def dict_get_def truthy_def)

theorem insert_job_no_id_witness:
  "insert_job healthy_env [''job_title'' \<mapsto> Some ''Engineer''] Map.empty = Inr (False, Map.empty)
   \<and> insert_job healthy_env [''job_id'' \<mapsto> Some []] Map.empty = Inr (False, Map.empty)"
  using insert_job_no_id [of "[''job_title'' \<mapsto> Some ''Engineer'']" healthy_env Map.empty]
    insert_job_no_id [of "[''job_id'' \<mapsto> Some []]" healthy_env Map.empty]
  by simp

lemma update_job_status_healthy:
  assumes "connect_ok env" "execute_ok env"
  shows "update_job_status env jid new_status tbl =
           (case tbl jid of
              None \<Rightarrow> Inr (False, tbl)
            | Some row \<Rightarrow> Inr (True, tbl(jid \<mapsto> row\<lparr>status := new_status\<rparr>)))"
  using assms
  by (simp add: update_job_status_def get_connection_def update_status_stmt_def
      split: option.splits)

text \<open>
  C4. With the database reachable, inserting a posting whose id is not yet stored
  returns true and stores the row with status \<open>new\<close>; inserting a posting with the
  same id again returns false and leaves the table as it was, both directly after the
  first insert and after the status of the row was set to any value in between.
\<close>

theorem insert_job_twice:
  assumes id1: "dict_get jd ''job_id'' = Some jid" and ne: "jid \<noteq> []"
    and id2: "dict_get jd' ''job_id'' = Some jid"
    and absent: "tbl jid = None"
    and ok: "connect_ok env" "execute_ok env"
  shows "\<exists>tbl1 row1.
           insert_job env jd tbl = Inr (True, tbl1)
           \<and> tbl1 jid = Some row1 \<and> status row1 = ''new''
           \<and> insert_job env jd' tbl1 = Inr (False, tbl1)
           \<and> (\<forall>st. \<exists>tbl2 row2.
                 update_job_status env jid st tbl1 = Inr (True, tbl2)
                 \<and> tbl2 jid = Some row2 \<and> status row2 = st
                 \<and> insert_job env jd' tbl2 = Inr (False, tbl2))"
proof -
  from insert_job_absent [where jd = jd and jid = jid and tbl = tbl and env = env, OF id1 ne absent ok]
  obtain tbl1 row1 where first: "insert_job env jd tbl = Inr (True, tbl1)"
    and r1: "tbl1 jid = Some row1" and s1: "status row1 = ''new''"
    by blast
  have again: "insert_job env jd' tbl1 = Inr (False, tbl1)"
    by (rule insert_job_present [where tbl = tbl1 and row = row1, OF id2 ne r1 ok])
  have upd: "\<exists>tbl2 row2.
                 update_job_status env jid st tbl1 = Inr (True, tbl2)
                 \<and> tbl2 jid = Some row2 \<and> status row2 = st
                 \<and> insert_job env jd' tbl2 = Inr (False, tbl2)" for st
  proof -
    let ?tbl2 = "tbl1(jid \<mapsto> row1\<lparr>status := st\<rparr>)"
    have u: "update_job_status env jid st tbl1 = Inr (True, ?tbl2)"
      using update_job_status_healthy [OF ok, of jid st tbl1] r1 by simp
    have p: "?tbl2 jid = Some (row1\<lparr>status := st\<rparr>)" by simp
    have "insert_job env jd' ?tbl2 = Inr (False, ?tbl2)"
      by (rule insert_job_present [where tbl = ?tbl2 and row = "row1\<lparr>status := st\<rparr>", OF id2 ne p ok])
    with u p show ?thesis by auto
  qed
  from first r1 s1 again upd show ?thesis by blast
qed

theorem insert_job_twice_witness:
  "dict_get sample_job ''job_id'' = Some ''j1'' \<and> ''j1'' \<noteq> [] \<and> Map.empty ''j1'' = (None :: job_row option)
   \<and> connect_ok healthy_env \<and> execute_ok healthy_env
   \<and> (\<exists>tbl1 row1.
           insert_job healthy_env sample_job Map.empty = Inr (True, tbl1)
           \<and> tbl1 ''j1'' = Some row1 \<and> status row1 = ''new''
           \<and> insert_job healthy_env sample_job tbl1 = Inr (False, tbl1)
           \<and> (\<forall>st. \<exists>tbl2 row2.
                 update_job_status healthy_env ''j1'' st tbl1 = Inr (True, tbl2)
                 \<and> tbl2 ''j1'' = Some row2 \<and> status row2 = st
                 \<and> insert_job healthy_env sample_job tbl2 = Inr (False, tbl2)))"
proof -
  have a: "dict_get sample_job ''job_id'' = Some ''j1''"
    by (simp add: dict_get_def sample_job_def)
  have b: "''j1'' \<noteq> []" by simp
  have c: "Map.empty ''j1'' = (None :: job_row option)" by simp
  have d: "connect_ok healthy_env" "execute_ok healthy_env"
    by (simp_all add: healthy_env_def)
  show ?thesis
    using a b c d insert_job_twice [where tbl = Map.empty and env = healthy_env, OF a b a c d] by simp
qed

text \<open>
  C5 (as amended). \<open>update_job_status\<close> does not look at the status value: with the
  database reachable, any text is stored as the new status of an existing row and the
  call returns true; it returns false, changing nothing, exactly when the id is not
  stored.
\<close>

theorem update_job_status_any_value:
  assumes "connect_ok env" "execute_ok env"
  shows "update_job_status env jid new_status tbl =
           (case tbl jid of
              None \<Rightarrow> Inr (False, tbl)
            | Some row \<Rightarrow> Inr (True, tbl(jid \<mapsto> row\<lparr>status := new_status\<rparr>)))"
  using assms
  by (simp add: update_job_status_def get_connection_def update_status_stmt_def
      split: option.splits)

theorem update_job_status_any_value_witness:
  "connect_ok healthy_env \<and> execute_ok healthy_env
   \<and> update_job_status healthy_env ''j1'' ''seen'' [''j1'' \<mapsto> sample_row]
       = Inr (True, [''j1'' \<mapsto> sample_row\<lparr>status := ''seen''\<rparr>])
   \<and> update_job_status healthy_env ''j2'' ''seen'' [''j1'' \<mapsto> sample_row]
       = Inr (False, [''j1'' \<mapsto> sample_row])"
proof -
  have d: "connect_ok healthy_env" "execute_ok healthy_env"
    by (simp_all add: healthy_env_def)
  show ?thesis
    using d update_job_status_any_value [OF d, of "''j1''" "''seen''" "[''j1'' \<mapsto> sample_row]"]
      update_job_status_any_value [OF d, of "''j2''" "''seen''" "[''j1'' \<mapsto> sample_row]"]
    by simp
qed

text \<open>
  C5 (as stated) fails: a status outside the vocabulary is accepted and stored.
\<close>

theorem update_job_status_unchecked_counterexample:
  "''archived'' \<notin> set status_options
   \<and> update_job_status healthy_env ''j1'' ''archived'' [''j1'' \<mapsto> sample_row]
       = Inr (True, [''j1'' \<mapsto> sample_row\<lparr>status := ''archived''\<rparr>])
   \<and> status (sample_row\<lparr>status := ''archived''\<rparr>) \<noteq> status sample_row"
  by (simp add: status_options_def update_job_status_def get_connection_def
      update_status_stmt_def healthy_env_def sample_row_def)


section \<open>Properties of the float arithmetic\<close>

lemma exp_from_bounds: "e \<le> exp_from a e n \<and> exp_from a e n \<le> e + int n"
proof (induction n arbitrary: e)
  case 0
  show ?case by simp
next
  case (Suc n)
  from Suc [of "e + 1"] show ?case by auto
qed

lemma exp_from_upper:
  "exp_from a e n < e + int n \<Longrightarrow> a < 2 powi (exp_from a e n + 53)"
proof (induction n arbitrary: e)
  case 0
  then show ?case by simp
next
  case (Suc n)
  show ?case
  proof (cases "a < 2 powi (e + 53)")
    case True
    then show ?thesis by simp
  next
    case False
    with Suc.prems have "exp_from a (e + 1) n < e + 1 + int n" by simp
    from Suc.IH [OF this] False show ?thesis by simp
  qed
qed

lemma exp_from_lower:
  "e < exp_from a e n \<Longrightarrow> 2 powi (exp_from a e n + 52) \<le> a"
proof (induction n arbitrary: e)
  case 0
  then show ?case by simp
next
  case (Suc n)
  from Suc.prems have nlt: "\<not> a < 2 powi (e + 53)"
    by (auto split: if_splits)
  then have r: "exp_from a e (Suc n) = exp_from a (e + 1) n" by simp
  show ?case
  proof (cases "e + 1 < exp_from a (e + 1) n")
    case True
    from Suc.IH [OF True] r show ?thesis by simp
  next
    case False
    with exp_from_bounds [of "e + 1" a n] have "exp_from a (e + 1) n = e + 1" by simp
    with nlt r show ?thesis by (simp add: add.commute add.left_commute)
  qed
qed

lemma ulp_exp_range: "- 1074 \<le> ulp_exp x \<and> ulp_exp x \<le> 971"
  using exp_from_bounds [of "- 1074" "\<bar>x\<bar>" 2045] by (simp add: ulp_exp_def)

lemma ulp_exp_upper: "ulp_exp x < 971 \<Longrightarrow> \<bar>x\<bar> < 2 powi (ulp_exp x + 53)"
  using exp_from_upper [of "\<bar>x\<bar>" "- 1074" 2045] by (simp add: ulp_exp_def)

lemma ulp_exp_lower: "- 1074 < ulp_exp x \<Longrightarrow> 2 powi (ulp_exp x + 52) \<le> \<bar>x\<bar>"
  using exp_from_lower [of "- 1074" "\<bar>x\<bar>" 2045] by (simp add: ulp_exp_def)

lemma two_powi_mono: "m \<le> n \<Longrightarrow> (2::real) powi m \<le> 2 powi n"
  by (rule power_int_increasing) simp_all

text \<open>The exponent is fixed by the binade of the magnitude, which is how it is evaluated.\<close>

lemma ulp_exp_eq:
  assumes r: "- 1074 \<le> e" "e \<le> 971"
    and lo: "e = - 1074 \<or> 2 powi (e + 52) \<le> \<bar>x\<bar>"
    and hi: "e = 971 \<or> \<bar>x\<bar> < 2 powi (e + 53)"
  shows "ulp_exp x = e"
proof (rule ccontr)
  assume ne: "ulp_exp x \<noteq> e"
  let ?q = "ulp_exp x"
  from ne consider "?q < e" | "e < ?q" by linarith
  then show False
  proof cases
    case 1
    with r have "?q < 971" by simp
    from ulp_exp_upper [OF this] have a: "\<bar>x\<bar> < 2 powi (?q + 53)" .
    from 1 ulp_exp_range [of x] have "e \<noteq> - 1074" by simp
    with lo have b: "2 powi (e + 52) \<le> \<bar>x\<bar>" by simp
    have "(2::real) powi (?q + 53) \<le> 2 powi (e + 52)"
      by (rule two_powi_mono) (use 1 in simp)
    with a b show False by simp
  next
    case 2
    with r have "- 1074 < ?q" by simp
    from ulp_exp_lower [OF this] have a: "2 powi (?q + 52) \<le> \<bar>x\<bar>" .
    from 2 ulp_exp_range [of x] have "e \<noteq> 971" by simp
    with hi have b: "\<bar>x\<bar> < 2 powi (e + 53)" by simp
    have "(2::real) powi (e + 53) \<le> 2 powi (?q + 52)"
      by (rule two_powi_mono) (use 2 in simp)
    with a b show False by simp
  qed
qed

lemma nearest_double_eval:
  assumes "- 1074 \<le> e" "e \<le> 971"
    and "e = - 1074 \<or> 2 powi (e + 52) \<le> \<bar>x\<bar>"
    and "e = 971 \<or> \<bar>x\<bar> < 2 powi (e + 53)"
  shows "nearest_double x = of_int (round_half_even (x / 2 powi e)) * 2 powi e"
  by (simp add: nearest_double_def ulp_exp_eq [OF assms])

lemma to_double_eval:
  assumes "- 1074 \<le> e" "e \<le> 971"
    and "e = - 1074 \<or> 2 powi (e + 52) \<le> \<bar>x\<bar>"
    and "e = 971 \<or> \<bar>x\<bar> < 2 powi (e + 53)"
    and m: "round_half_even (x / 2 powi e) = m"
    and fin: "\<bar>of_int m * 2 powi e\<bar> < (2::real) powi 1024"
  shows "to_double x = Fin (of_int m * 2 powi e)"
proof -
  have "nearest_double x = of_int m * 2 powi e"
    using nearest_double_eval [OF assms(1-4)] m by simp
  with fin show ?thesis by (simp add: to_double_def)
qed

lemma round_half_even_between:
  "\<lfloor>x\<rfloor> \<le> round_half_even x \<and> round_half_even x \<le> \<lfloor>x\<rfloor> + 1"
  by (simp add: round_half_even_def Let_def)

lemma round_half_even_nonneg:
  assumes "0 \<le> x"
  shows "0 \<le> round_half_even x"
proof -
  have "0 \<le> \<lfloor>x\<rfloor>" using assms by simp
  with round_half_even_between [of x] show ?thesis by linarith
qed

lemma round_half_even_le:
  assumes "x \<le> of_int n"
  shows "round_half_even x \<le> n"
proof (cases "\<lfloor>x\<rfloor> = n")
  case True
  then have "of_int n \<le> x" by (metis of_int_floor_le)
  with assms have "x = of_int n" by simp
  then show ?thesis by (simp add: round_half_even_def Let_def)
next
  case False
  have "\<lfloor>x\<rfloor> \<le> n" using assms by (simp add: floor_le_iff)
  with False have "\<lfloor>x\<rfloor> + 1 \<le> n" by simp
  with round_half_even_between [of x] show ?thesis by linarith
qed

lemma round_half_even_ge:
  assumes "of_int n \<le> x"
  shows "n \<le> round_half_even x"
proof -
  have "n \<le> \<lfloor>x\<rfloor>" using assms by (simp add: le_floor_iff)
  with round_half_even_between [of x] show ?thesis by linarith
qed

lemma round_half_even_mono:
  assumes "x \<le> y"
  shows "round_half_even x \<le> round_half_even y"
proof (cases "\<lfloor>x\<rfloor> = \<lfloor>y\<rfloor>")
  case True
  with assms have "x - of_int \<lfloor>x\<rfloor> \<le> y - of_int \<lfloor>y\<rfloor>" by simp
  with True show ?thesis
    by (auto simp: round_half_even_def Let_def)
next
  case False
  have "\<lfloor>x\<rfloor> \<le> \<lfloor>y\<rfloor>" using assms by (rule floor_mono)
  with False have "\<lfloor>x\<rfloor> + 1 \<le> \<lfloor>y\<rfloor>" by simp
  with round_half_even_between [of x] round_half_even_between [of y]
  show ?thesis by linarith
qed

lemma nearest_double_nonneg:
  assumes "0 \<le> x"
  shows "0 \<le> nearest_double x"
proof -
  have "0 \<le> x / 2 powi ulp_exp x" using assms by simp
  from round_half_even_nonneg [OF this] show ?thesis
    by (simp add: nearest_double_def Let_def)
qed

lemma ulp_exp_mono:
  assumes "0 \<le> x" "x \<le> y"
  shows "ulp_exp x \<le> ulp_exp y"
proof (rule ccontr)
  assume "\<not> ulp_exp x \<le> ulp_exp y"
  then have lt: "ulp_exp y < ulp_exp x" by simp
  with ulp_exp_range [of y] have "- 1074 < ulp_exp x" by linarith
  from ulp_exp_lower [OF this] assms have a: "2 powi (ulp_exp x + 52) \<le> x" by simp
  from lt ulp_exp_range [of x] have "ulp_exp y < 971" by linarith
  from ulp_exp_upper [OF this] assms have b: "y < 2 powi (ulp_exp y + 53)" by simp
  have "(2::real) powi (ulp_exp y + 53) \<le> 2 powi (ulp_exp x + 52)"
    by (rule two_powi_mono) (use lt in simp)
  with a b assms show False by simp
qed

lemma two_powi_shift: "(2::real) powi (e + int k) = 2 ^ k * 2 powi e"
  by (simp add: power_int_add mult.commute)

lemma nearest_double_mono:
  assumes x0: "0 \<le> x" and xy: "x \<le> y"
  shows "nearest_double x \<le> nearest_double y"
proof (cases "ulp_exp x = ulp_exp y")
  case True
  have "x / 2 powi ulp_exp y \<le> y / 2 powi ulp_exp y"
    using xy by (simp add: divide_right_mono)
  from round_half_even_mono [OF this] True show ?thesis
    by (simp add: nearest_double_def Let_def mult_right_mono)
next
  case False
  let ?ex = "ulp_exp x" and ?ey = "ulp_exp y"
  from False ulp_exp_mono [OF x0 xy] have lt: "?ex < ?ey" by simp
  with ulp_exp_range [of y] have "?ex < 971" by linarith
  from ulp_exp_upper [OF this] x0 have "x < 2 powi (?ex + 53)" by simp
  then have "x < 2 ^ 53 * 2 powi ?ex"
    using two_powi_shift [of ?ex 53] by simp
  then have "x / 2 powi ?ex \<le> of_int (2 ^ 53)"
    by (simp add: pos_divide_le_eq)
  from round_half_even_le [OF this]
  have "real_of_int (round_half_even (x / 2 powi ?ex)) \<le> 2 ^ 53"
    by (metis of_int_le_iff of_int_numeral of_int_power)
  then have "nearest_double x \<le> 2 ^ 53 * 2 powi ?ex"
    by (simp add: nearest_double_def Let_def mult_right_mono)
  then have a: "nearest_double x \<le> 2 powi (?ex + 53)"
    using two_powi_shift [of ?ex 53] by simp
  have b: "(2::real) powi (?ex + 53) \<le> 2 powi (?ey + 52)"
    by (rule two_powi_mono) (use lt in simp)
  from lt ulp_exp_range [of x] have "- 1074 < ?ey" by linarith
  from ulp_exp_lower [OF this] x0 xy have "2 powi (?ey + 52) \<le> y" by simp
  then have "2 ^ 52 * 2 powi ?ey \<le> y"
    using two_powi_shift [of ?ey 52] by simp
  then have "of_int (2 ^ 52) \<le> y / 2 powi ?ey"
    by (simp add: pos_le_divide_eq)
  from round_half_even_ge [OF this]
  have "2 ^ 52 \<le> real_of_int (round_half_even (y / 2 powi ?ey))"
    by (metis of_int_le_iff of_int_numeral of_int_power)
  then have "2 ^ 52 * 2 powi ?ey \<le> nearest_double y"
    by (simp add: nearest_double_def Let_def mult_right_mono)
  then have c: "2 powi (?ey + 52) \<le> nearest_double y"
    using two_powi_shift [of ?ey 52] by simp
  from a b c show ?thesis by linarith
qed

text \<open>Rounding to a double keeps the order of non-negative values.\<close>

lemma to_double_mono:
  assumes x0: "0 \<le> x" and xy: "x \<le> y" and y: "to_double y = Fin d"
  shows "\<exists>a. to_double x = Fin a \<and> 0 \<le> a \<and> a \<le> d"
proof -
  from y have d: "nearest_double y = d" and fin: "\<bar>d\<bar> < 2 powi 1024"
    by (auto simp: to_double_def Let_def split: if_splits)
  have lo: "0 \<le> nearest_double x" by (rule nearest_double_nonneg [OF x0])
  have hi: "nearest_double x \<le> d" using nearest_double_mono [OF x0 xy] d by simp
  from lo hi fin have "\<bar>nearest_double x\<bar> < 2 powi 1024" by linarith
  with lo hi show ?thesis by (simp add: to_double_def Let_def)
qed

lemma to_double_1: "to_double 1 = Fin 1"
  using to_double_eval [of "- 52" 1 "2 ^ 52"]
  by (simp add: round_half_even_def)

lemma to_double_2: "to_double 2 = Fin 2"
  using to_double_eval [of "- 51" 2 "2 ^ 52"]
  by (simp add: round_half_even_def)

lemma to_double_100: "to_double 100 = Fin 100"
  using to_double_eval [of "- 46" 100 "100 * 2 ^ 46"]
  by (simp add: round_half_even_def)

lemma to_double_0: "to_double 0 = Fin 0"
  by (simp add: to_double_def nearest_double_def round_half_even_def)

text \<open>
  The arithmetic of the scoring path at overlap 9/80, cosine 0 and weights 0.5: the
  product with 100 is the double just above 30.625, so the score is the double written
  30.63 (on exact values 30.625 would be a tie and round to 30.62).
\<close>

lemma final_score_arithmetic_example:
  "py_round
     (float_mul
        (float_add (float_mul (to_double (9 / 80)) (Fin (1 / 2)))
           (float_mul (float_div_by (float_add (Fin 0) (Fin 1)) 2) (Fin (1 / 2))))
        (Fin 100)) 2
   = to_double (3063 / 100)"
proof -
  have k: "to_double (9 / 80) = Fin (8106479329266893 / 72057594037927936)"
    using to_double_eval [of "- 56" "9 / 80" "8106479329266893"]
    by (simp add: round_half_even_def float_div_by_def)
  have a: "float_mul (Fin (8106479329266893 / 72057594037927936)) (Fin (1 / 2)) = Fin (8106479329266893 / 144115188075855872)"
    using to_double_eval [of "- 57" "8106479329266893 / 144115188075855872" "8106479329266893"]
    by (simp add: round_half_even_def float_div_by_def)
  have s: "float_add (Fin 0) (Fin 1) = Fin (1)"
    using to_double_eval [of "- 52" "1" "4503599627370496"]
    by (simp add: round_half_even_def float_div_by_def)
  have n: "float_div_by (Fin 1) 2 = Fin (1 / 2)"
    using to_double_eval [of "- 53" "1 / 2" "4503599627370496"]
    by (simp add: round_half_even_def float_div_by_def)
  have b: "float_mul (Fin (1 / 2)) (Fin (1 / 2)) = Fin (1 / 4)"
    using to_double_eval [of "- 54" "1 / 4" "4503599627370496"]
    by (simp add: round_half_even_def float_div_by_def)
  have f: "float_add (Fin (8106479329266893 / 144115188075855872)) (Fin (1 / 4)) = Fin (2758454771764429 / 9007199254740992)"
    using to_double_eval [of "- 54" "44135276348230861 / 144115188075855872" "5516909543528858"]
    by (simp add: round_half_even_def float_div_by_def)
  have g: "float_mul (Fin (2758454771764429 / 9007199254740992)) (Fin 100) = Fin (8620171161763841 / 281474976710656)"
    using to_double_eval [of "- 48" "68961369294110725 / 2251799813685248" "8620171161763841"]
    by (simp add: round_half_even_def float_div_by_def)
  have r: "py_round (Fin (8620171161763841 / 281474976710656)) 2 = to_double (3063 / 100)"
    by (simp add: py_round_def round_half_even_def)
  show ?thesis
    by (simp only: k a s n b f g r)
qed

section \<open>Properties of the score combiner\<close>

lemma overlap_score_nonempty:
  assumes "rk \<noteq> []" "jk \<noteq> []"
  shows "calculate_keyword_overlap_score rk jk
           = real (card (set rk \<inter> set jk)) / real (card (set rk \<union> set jk))"
proof -
  have "set rk \<union> set jk \<noteq> {}" using assms by simp
  then have "card (set rk \<union> set jk) \<noteq> 0" by simp
  then show ?thesis
    using assms by (simp add: calculate_keyword_overlap_score_def Let_def)
qed

lemma inter_union_card:
  fixes A B :: "'a set"
  assumes "finite A" "finite B"
  shows "card (A \<inter> B) \<le> card (A \<union> B)"
    and "card (A \<inter> B) = card (A \<union> B) \<longleftrightarrow> A = B"
proof -
  have fin: "finite (A \<union> B)" using assms by simp
  have sub: "A \<inter> B \<subseteq> A \<union> B" by blast
  show "card (A \<inter> B) \<le> card (A \<union> B)"
    by (rule card_mono [OF fin sub])
  show "card (A \<inter> B) = card (A \<union> B) \<longleftrightarrow> A = B"
  proof
    assume "card (A \<inter> B) = card (A \<union> B)"
    then have "A \<inter> B = A \<union> B"
      using card_subset_eq [OF fin sub] by simp
    then show "A = B" by blast
  next
    assume "A = B"
    then show "card (A \<inter> B) = card (A \<union> B)" by simp
  qed
qed

lemma overlap_score_bounds:
  "0 \<le> calculate_keyword_overlap_score rk jk \<and> calculate_keyword_overlap_score rk jk \<le> 1"
proof (cases "rk = [] \<or> jk = []")
  case True
  then show ?thesis by (auto simp: calculate_keyword_overlap_score_def)
next
  case False
  then have ne: "rk \<noteq> []" "jk \<noteq> []" by simp_all
  have pos: "0 < card (set rk \<union> set jk)"
    using ne by (simp add: card_gt_0_iff)
  have le: "card (set rk \<inter> set jk) \<le> card (set rk \<union> set jk)"
    by (rule inter_union_card(1)) simp_all
  show ?thesis
    using pos le by (simp add: overlap_score_nonempty [OF ne])
qed

text \<open>
  C3. For non-empty keyword lists the overlap score is the Jaccard index of the two
  sets of keywords, the size of the intersection over the size of the union; it lies
  between 0 and 1 and is 1 exactly when the two sets are the same. When either list is
  empty the score is 0.
\<close>

theorem keyword_overlap_is_jaccard:
  "(rk \<noteq> [] \<and> jk \<noteq> [] \<longrightarrow>
      calculate_keyword_overlap_score rk jk
        = real (card (set rk \<inter> set jk)) / real (card (set rk \<union> set jk))
      \<and> 0 \<le> calculate_keyword_overlap_score rk jk
      \<and> calculate_keyword_overlap_score rk jk \<le> 1
      \<and> (calculate_keyword_overlap_score rk jk = 1 \<longleftrightarrow> set rk = set jk))
   \<and> (rk = [] \<or> jk = [] \<longrightarrow> calculate_keyword_overlap_score rk jk = 0)"
proof (intro conjI impI)
  assume "rk = [] \<or> jk = []"
  then show "calculate_keyword_overlap_score rk jk = 0"
    by (auto simp: calculate_keyword_overlap_score_def)
next
  assume a: "rk \<noteq> [] \<and> jk \<noteq> []"
  then have ne: "rk \<noteq> []" "jk \<noteq> []" by simp_all
  show eq: "calculate_keyword_overlap_score rk jk
        = real (card (set rk \<inter> set jk)) / real (card (set rk \<union> set jk))"
    by (rule overlap_score_nonempty [OF ne])
  show "0 \<le> calculate_keyword_overlap_score rk jk"
    using overlap_score_bounds by blast
  show "calculate_keyword_overlap_score rk jk \<le> 1"
    using overlap_score_bounds by blast
  have pos: "0 < card (set rk \<union> set jk)"
    using ne by (simp add: card_gt_0_iff)
  have "calculate_keyword_overlap_score rk jk = 1
          \<longleftrightarrow> card (set rk \<inter> set jk) = card (set rk \<union> set jk)"
    using pos ne by (auto simp: eq)
  also have "\<dots> \<longleftrightarrow> set rk = set jk"
    by (rule inter_union_card(2)) simp_all
  finally show "calculate_keyword_overlap_score rk jk = 1 \<longleftrightarrow> set rk = set jk" .
qed

theorem keyword_overlap_is_jaccard_witness:
  "calculate_keyword_overlap_score [''design'', ''analysis''] [''analysis'', ''testing''] = 1 / 3
   \<and> calculate_keyword_overlap_score [''design'', ''analysis''] [''analysis'', ''design'', ''design''] = 1
   \<and> calculate_keyword_overlap_score [] [''analysis''] = 0"
  using keyword_overlap_is_jaccard [of "[''design'', ''analysis'']" "[''analysis'', ''testing'']"]
    keyword_overlap_is_jaccard [of "[''design'', ''analysis'']" "[''analysis'', ''design'', ''design'']"]
    keyword_overlap_is_jaccard [of "[]" "[''analysis'']"]
  by (simp add: insert_commute)


lemma get_semantic_score_bounds:
  assumes "\<forall>a b. \<exists>r. util_cos_sim m a b = Fin r \<and> - 1 \<le> r \<and> r \<le> 1"
  shows "\<exists>r. get_semantic_score m t1 t2 = Fin r \<and> - 1 \<le> r \<and> r \<le> 1"
  using assms
  by (simp add: get_semantic_score_def get_embedding_def calculate_similarity_def)

lemma match_early_return:
  assumes "(case r_text resume_data of None \<Rightarrow> [] | Some t \<Rightarrow> t) = []
           \<or> \<not> truthy (dict_get_default jd ''job_description'' (Some []))"
  shows "match_job_to_resume self cfg resume_data jd =
           Inr [''final_score'' \<mapsto> PyFloat (Fin 0), ''keyword_score'' \<mapsto> PyFloat (Fin 0),
                ''semantic_score'' \<mapsto> PyFloat (Fin 0)]"
  using assms
  by (auto simp: match_job_to_resume_def Let_def truthy_def)

lemma match_scoring_path:
  assumes rt: "r_text resume_data = Some rt" "rt \<noteq> []"
    and d: "dict_get_default jd ''job_description'' (Some []) = Some d" "d \<noteq> []"
    and t: "dict_get_default jd ''job_title'' (Some []) = Some title"
  shows "match_job_to_resume self cfg resume_data jd =
    (let rk = (case r_keywords resume_data of None \<Rightarrow> [] | Some l \<Rightarrow> l);
         jk = extract_general_keywords (the_resume_parser self) d;
         ks = to_double (calculate_keyword_overlap_score rk jk);
         ss = float_div_by
                (float_add (get_semantic_score (the_semantic_matcher self) rt d) (Fin 1)) 2
     in Inr [''final_score'' \<mapsto>
               PyFloat (py_round
                 (float_mul (float_add (float_mul ks (KEYWORD_WEIGHT cfg))
                                       (float_mul ss (SEMANTIC_WEIGHT cfg))) (Fin 100)) 2),
             ''keyword_score'' \<mapsto> PyFloat (py_round (float_mul ks (Fin 100)) 2),
             ''semantic_score'' \<mapsto> PyFloat (py_round (float_mul ss (Fin 100)) 2),
             ''matched_keywords'' \<mapsto> PyListOfSet (set rk \<inter> set jk)])"
  using assms
  by (simp add: match_job_to_resume_def Let_def truthy_def)

text \<open>
  A title bound to \<open>None\<close> reaches the concatenation
  \<open>job_description + " " + job_title\<close> whenever both texts are non-empty.
\<close>

lemma match_null_title:
  assumes rt: "r_text resume_data = Some rt" "rt \<noteq> []"
    and d: "dict_get_default jd ''job_description'' (Some []) = Some d" "d \<noteq> []"
    and t: "jd ''job_title'' = Some None"
  shows "match_job_to_resume self cfg resume_data jd = Inl TypeError"
  using assms
  by (simp add: match_job_to_resume_def Let_def truthy_def dict_get_default_def)

lemma py_round_percent_bounds:
  assumes "0 \<le> g" "g \<le> 100"
  shows "\<exists>v. py_round (Fin g) 2 = Fin v \<and> 0 \<le> v \<and> v \<le> 100"
proof -
  have a: "0 \<le> g * 10 ^ 2" using assms by simp
  have b: "g * 10 ^ 2 \<le> of_int 10000" using assms by simp
  have lo: "0 \<le> round_half_even (g * 10 ^ 2)"
    by (rule round_half_even_nonneg [OF a])
  have hi: "round_half_even (g * 10 ^ 2) \<le> 10000"
    by (rule round_half_even_le [OF b])
  have hi': "real_of_int (round_half_even (g * 10 ^ 2)) \<le> 10000"
    using hi by linarith
  have x0: "0 \<le> real_of_int (round_half_even (g * 10 ^ 2)) / 10 ^ 2"
    using lo by simp
  have x1: "real_of_int (round_half_even (g * 10 ^ 2)) / 10 ^ 2 \<le> 100"
    using hi' by simp
  from to_double_mono [OF x0 x1 to_double_100]
  show ?thesis by (simp add: py_round_def)
qed

lemma weighted_sum_in_unit_interval:
  assumes k: "0 \<le> k" "k \<le> 1" and n: "0 \<le> n" "n \<le> 1"
    and wk: "is_double wk" "0 \<le> wk" and ws: "is_double ws" "0 \<le> ws"
    and sum: "float_add (Fin wk) (Fin ws) = Fin 1"
  shows "\<exists>f. float_add (float_mul (Fin k) (Fin wk)) (float_mul (Fin n) (Fin ws)) = Fin f
             \<and> 0 \<le> f \<and> f \<le> 1"
proof -
  have dk: "to_double wk = Fin wk" and ds: "to_double ws = Fin ws"
    using wk ws by (simp_all add: is_double_def to_double_def)
  have "0 \<le> k * wk" "k * wk \<le> wk"
    using k wk by (simp_all add: mult_left_le_one_le)
  from to_double_mono [OF this dk]
  obtain a where a: "float_mul (Fin k) (Fin wk) = Fin a" "0 \<le> a" "a \<le> wk" by auto
  have "0 \<le> n * ws" "n * ws \<le> ws"
    using n ws by (simp_all add: mult_left_le_one_le)
  from to_double_mono [OF this ds]
  obtain b where b: "float_mul (Fin n) (Fin ws) = Fin b" "0 \<le> b" "b \<le> ws" by auto
  have "0 \<le> a + b" "a + b \<le> wk + ws" using a b by simp_all
  from to_double_mono [OF this] sum
  obtain f where "to_double (a + b) = Fin f" "0 \<le> f" "f \<le> 1" by auto
  with a b show ?thesis by simp
qed

text \<open>
  Where the title is absent or text: for weights that are non-negative doubles with
  float sum 1.0 and a cosine in \<open>[-1, 1]\<close>, the call returns a result whose
  \<open>final_score\<close> lies in \<open>[0, 100]\<close>.
\<close>

lemma match_final_score_in_range:
  assumes wk: "KEYWORD_WEIGHT cfg = Fin wk" "is_double wk" "0 \<le> wk"
    and ws: "SEMANTIC_WEIGHT cfg = Fin ws" "is_double ws" "0 \<le> ws"
    and sum: "float_add (KEYWORD_WEIGHT cfg) (SEMANTIC_WEIGHT cfg) = Fin 1"
    and cos: "\<forall>a b. \<exists>r. util_cos_sim (the_semantic_matcher self) a b = Fin r
                      \<and> - 1 \<le> r \<and> r \<le> 1"
    and t: "dict_get_default jd ''job_title'' (Some []) \<noteq> None"
  shows "\<exists>res v. match_job_to_resume self cfg resume_data jd = Inr res
           \<and> res ''final_score'' = Some (PyFloat (Fin v)) \<and> 0 \<le> v \<and> v \<le> 100"
proof (cases "(case r_text resume_data of None \<Rightarrow> [] | Some t \<Rightarrow> t) = []
           \<or> \<not> truthy (dict_get_default jd ''job_description'' (Some []))")
  case True
  from match_early_return [OF True, of self cfg]
  show ?thesis by auto
next
  case False
  then obtain rt d where rt: "r_text resume_data = Some rt" "rt \<noteq> []"
    and d: "dict_get_default jd ''job_description'' (Some []) = Some d" "d \<noteq> []"
    by (auto simp: truthy_def split: option.splits)
  from t obtain title where title: "dict_get_default jd ''job_title'' (Some []) = Some title"
    by auto
  define rk where "rk = (case r_keywords resume_data of None \<Rightarrow> [] | Some l \<Rightarrow> l)"
  define jk where "jk = extract_general_keywords (the_resume_parser self) d"
  have q: "0 \<le> calculate_keyword_overlap_score rk jk"
      "calculate_keyword_overlap_score rk jk \<le> 1"
    using overlap_score_bounds by simp_all
  from to_double_mono [OF q to_double_1]
  obtain k where k: "to_double (calculate_keyword_overlap_score rk jk) = Fin k"
      "0 \<le> k" "k \<le> 1"
    by auto
  from get_semantic_score_bounds [OF cos, of rt d]
  obtain r where r: "get_semantic_score (the_semantic_matcher self) rt d = Fin r"
      "- 1 \<le> r" "r \<le> 1"
    by auto
  have "0 \<le> r + 1" "r + 1 \<le> 2" using r by simp_all
  from to_double_mono [OF this to_double_2]
  obtain s where s: "to_double (r + 1) = Fin s" "0 \<le> s" "s \<le> 2" by auto
  have "0 \<le> s / 2" "s / 2 \<le> 1" using s by simp_all
  from to_double_mono [OF this to_double_1]
  obtain n where n: "to_double (s / 2) = Fin n" "0 \<le> n" "n \<le> 1" by auto
  have ss: "float_div_by (float_add (get_semantic_score (the_semantic_matcher self) rt d)
              (Fin 1)) 2 = Fin n"
    by (simp add: r s n float_div_by_def)
  from weighted_sum_in_unit_interval [OF k(2,3) n(2,3) wk(2,3) ws(2,3)] sum wk(1) ws(1)
  obtain f where f: "float_add (float_mul (Fin k) (Fin wk)) (float_mul (Fin n) (Fin ws)) = Fin f"
      "0 \<le> f" "f \<le> 1"
    by auto
  have "0 \<le> f * 100" "f * 100 \<le> 100" using f by simp_all
  from to_double_mono [OF this to_double_100]
  obtain g where g: "to_double (f * 100) = Fin g" "0 \<le> g" "g \<le> 100" by auto
  from py_round_percent_bounds [OF g(2,3)]
  obtain v where v: "py_round (Fin g) 2 = Fin v" "0 \<le> v" "v \<le> 100" by auto
  have "match_job_to_resume self cfg resume_data jd =
           Inr [''final_score'' \<mapsto> PyFloat (Fin v),
                ''keyword_score'' \<mapsto> PyFloat (py_round (float_mul (Fin k) (Fin 100)) 2),
                ''semantic_score'' \<mapsto> PyFloat (py_round (float_mul (Fin n) (Fin 100)) 2),
                ''matched_keywords'' \<mapsto> PyListOfSet (set rk \<inter> set jk)]"
    using match_scoring_path [OF rt d title, of self cfg] f(1)
    by (simp add: Let_def rk_def [symmetric] jk_def [symmetric] k ss wk(1) ws(1) g v)
  with v show ?thesis by simp
qed

text \<open>
  One posting scored end to end: overlap 1/3 and cosine 0 give the floats written
  41.67, 33.33 and 50.0.
\<close>

lemma match_example_scores:
  "match_job_to_resume stub_matcher (settings None) analyst_resume analyst_posting
     = Inr [''final_score'' \<mapsto> PyFloat (to_double (4167 / 100)),
            ''keyword_score'' \<mapsto> PyFloat (to_double (3333 / 100)),
            ''semantic_score'' \<mapsto> PyFloat (to_double 50),
            ''matched_keywords'' \<mapsto> PyListOfSet {''analysis''}]"
proof -
  have rt: "r_text analyst_resume = Some ''Design and analysis''"
      "''Design and analysis'' \<noteq> []"
    by (simp_all add: analyst_resume_def)
  have d: "dict_get_default analyst_posting ''job_description'' (Some [])
             = Some ''Testing and analysis''"
      "''Testing and analysis'' \<noteq> []"
    by (simp_all add: analyst_posting_def dict_get_default_def)
  have t: "dict_get_default analyst_posting ''job_title'' (Some []) = Some ''Analyst''"
    by (simp add: analyst_posting_def dict_get_default_def)
  have rk: "(case r_keywords analyst_resume of None \<Rightarrow> [] | Some l \<Rightarrow> l)
              = [''analysis'', ''design'']"
    by (simp add: analyst_resume_def)
  have jk: "extract_general_keywords (the_resume_parser stub_matcher) ''Testing and analysis''
              = [''analysis'', ''testing'']"
    by code_simp
  have q: "calculate_keyword_overlap_score [''analysis'', ''design''] [''analysis'', ''testing'']
             = 1 / 3"
    by code_simp
  have raw: "get_semantic_score (the_semantic_matcher stub_matcher)
               ''Design and analysis'' ''Testing and analysis'' = Fin 0"
    by (simp add: get_semantic_score_def get_embedding_def calculate_similarity_def
        stub_matcher_def stub_semantic_matcher_def)
  have i: "{''analysis'', ''design''} \<inter> {''analysis'', ''testing''} = {''analysis''}"
    by auto
  have w: "KEYWORD_WEIGHT (settings None) = Fin (1 / 2)"
      "SEMANTIC_WEIGHT (settings None) = Fin (1 / 2)"
    by (simp_all add: settings_def)
  have k: "to_double (1 / 3) = Fin (6004799503160661 / 18014398509481984)"
    using to_double_eval [of "- 54" "1 / 3" "6004799503160661"]
    by (simp add: round_half_even_def float_div_by_def)
  have a: "float_mul (Fin (6004799503160661 / 18014398509481984)) (Fin (1 / 2)) = Fin (6004799503160661 / 36028797018963968)"
    using to_double_eval [of "- 55" "6004799503160661 / 36028797018963968" "6004799503160661"]
    by (simp add: round_half_even_def float_div_by_def)
  have s: "float_add (Fin 0) (Fin 1) = Fin (1)"
    using to_double_eval [of "- 52" "1" "4503599627370496"]
    by (simp add: round_half_even_def float_div_by_def)
  have n: "float_div_by (Fin 1) 2 = Fin (1 / 2)"
    using to_double_eval [of "- 53" "1 / 2" "4503599627370496"]
    by (simp add: round_half_even_def float_div_by_def)
  have b: "float_mul (Fin (1 / 2)) (Fin (1 / 2)) = Fin (1 / 4)"
    using to_double_eval [of "- 54" "1 / 4" "4503599627370496"]
    by (simp add: round_half_even_def float_div_by_def)
  have f: "float_add (Fin (6004799503160661 / 36028797018963968)) (Fin (1 / 4)) = Fin (3752999689475413 / 9007199254740992)"
    using to_double_eval [of "- 54" "15011998757901653 / 36028797018963968" "7505999378950826"]
    by (simp add: round_half_even_def float_div_by_def)
  have g: "float_mul (Fin (3752999689475413 / 9007199254740992)) (Fin 100) = Fin (5864062014805333 / 140737488355328)"
    using to_double_eval [of "- 47" "93824992236885325 / 2251799813685248" "5864062014805333"]
    by (simp add: round_half_even_def float_div_by_def)
  have kk: "float_mul (Fin (6004799503160661 / 18014398509481984)) (Fin 100) = Fin (2345624805922133 / 70368744177664)"
    using to_double_eval [of "- 47" "150119987579016525 / 4503599627370496" "4691249611844266"]
    by (simp add: round_half_even_def float_div_by_def)
  have nn: "float_mul (Fin (1 / 2)) (Fin 100) = Fin (50)"
    using to_double_eval [of "- 47" "50" "7036874417766400"]
    by (simp add: round_half_even_def float_div_by_def)
  have rg: "py_round (Fin (5864062014805333 / 140737488355328)) 2 = to_double (4167 / 100)"
    by (simp add: py_round_def round_half_even_def)
  have rk': "py_round (Fin (2345624805922133 / 70368744177664)) 2 = to_double (3333 / 100)"
    by (simp add: py_round_def round_half_even_def)
  have rn: "py_round (Fin 50) 2 = to_double 50"
    by (simp add: py_round_def round_half_even_def)
  have "match_job_to_resume stub_matcher (settings None) analyst_resume analyst_posting =
     Inr [''final_score'' \<mapsto>
               PyFloat (py_round
                 (float_mul (float_add (float_mul (to_double (1 / 3)) (Fin (1 / 2)))
                    (float_mul (float_div_by (float_add (Fin 0) (Fin 1)) 2) (Fin (1 / 2))))
                    (Fin 100)) 2),
             ''keyword_score'' \<mapsto> PyFloat (py_round (float_mul (to_double (1 / 3)) (Fin 100)) 2),
             ''semantic_score'' \<mapsto>
               PyFloat (py_round
                 (float_mul (float_div_by (float_add (Fin 0) (Fin 1)) 2) (Fin 100)) 2),
             ''matched_keywords'' \<mapsto> PyListOfSet {''analysis''}]"
    using match_scoring_path [OF rt d t, of stub_matcher "settings None"]
    by (simp add: Let_def rk jk q raw i w)
  then show ?thesis
    by (simp only: k a s n b f g kk nn rg rk' rn)
qed

text \<open>
  C1 (as amended). When the resume text is absent or empty, or the posting's
  description is absent, \<open>None\<close> or empty, \<open>match_job_to_resume\<close> returns the dict
  with exactly the three keys \<open>final_score\<close>, \<open>keyword_score\<close> and
  \<open>semantic_score\<close>, each 0.0; the dict has no \<open>matched_keywords\<close> entry.
\<close>

theorem match_empty_text_zero_scores:
  assumes "r_text resume_data = None \<or> r_text resume_data = Some []
           \<or> jd ''job_description'' = None \<or> jd ''job_description'' = Some None
           \<or> jd ''job_description'' = Some (Some [])"
  shows "\<exists>res. match_job_to_resume self cfg resume_data jd = Inr res
           \<and> res ''final_score'' = Some (PyFloat (Fin 0))
           \<and> res ''keyword_score'' = Some (PyFloat (Fin 0))
           \<and> res ''semantic_score'' = Some (PyFloat (Fin 0))
           \<and> dom res = {''final_score'', ''keyword_score'', ''semantic_score''}"
proof -
  have "(case r_text resume_data of None \<Rightarrow> [] | Some t \<Rightarrow> t) = []
           \<or> \<not> truthy (dict_get_default jd ''job_description'' (Some []))"
    using assms by (auto simp: truthy_def dict_get_default_def)
  from match_early_return [OF this, of self cfg]
  show ?thesis by auto
qed

theorem match_empty_text_zero_scores_witness:
  "empty_posting ''job_description'' = Some (Some [])
   \<and> (\<exists>res. match_job_to_resume stub_matcher (settings None) sample_resume empty_posting = Inr res
           \<and> res ''final_score'' = Some (PyFloat (Fin 0))
           \<and> res ''keyword_score'' = Some (PyFloat (Fin 0))
           \<and> res ''semantic_score'' = Some (PyFloat (Fin 0))
           \<and> dom res = {''final_score'', ''keyword_score'', ''semantic_score''})"
proof -
  have h: "empty_posting ''job_description'' = Some (Some [])"
    by (simp add: empty_posting_def)
  show ?thesis
    using h match_empty_text_zero_scores
      [of sample_resume empty_posting stub_matcher "settings None"]
    by blast
qed

text \<open>
  C1 (as stated) fails: for a posting with an empty description the returned dict has
  no \<open>matched_keywords\<close> entry, so it is not the four-field result with an empty set
  of matched keywords.
\<close>

theorem match_empty_text_counterexample:
  "match_job_to_resume stub_matcher (settings None) sample_resume empty_posting
     = Inr [''final_score'' \<mapsto> PyFloat (Fin 0), ''keyword_score'' \<mapsto> PyFloat (Fin 0),
            ''semantic_score'' \<mapsto> PyFloat (Fin 0)]
   \<and> [''final_score'' \<mapsto> PyFloat (Fin 0), ''keyword_score'' \<mapsto> PyFloat (Fin 0),
       ''semantic_score'' \<mapsto> PyFloat (Fin 0)] ''matched_keywords'' = None
   \<and> match_job_to_resume stub_matcher (settings None) sample_resume empty_posting
     \<noteq> Inr [''final_score'' \<mapsto> PyFloat (Fin 0), ''keyword_score'' \<mapsto> PyFloat (Fin 0),
            ''semantic_score'' \<mapsto> PyFloat (Fin 0), ''matched_keywords'' \<mapsto> PyListOfSet {}]"
proof -
  have e: "match_job_to_resume stub_matcher (settings None) sample_resume empty_posting
     = Inr [''final_score'' \<mapsto> PyFloat (Fin 0), ''keyword_score'' \<mapsto> PyFloat (Fin 0),
            ''semantic_score'' \<mapsto> PyFloat (Fin 0)]"
    by (simp add: match_job_to_resume_def Let_def truthy_def dict_get_default_def
        empty_posting_def sample_resume_def)
  have n: "[''final_score'' \<mapsto> PyFloat (Fin 0), ''keyword_score'' \<mapsto> PyFloat (Fin 0),
       ''semantic_score'' \<mapsto> PyFloat (Fin 0)] ''matched_keywords'' = None"
    by simp
  have d: "[''final_score'' \<mapsto> PyFloat (Fin 0), ''keyword_score'' \<mapsto> PyFloat (Fin 0),
            ''semantic_score'' \<mapsto> PyFloat (Fin 0)]
          \<noteq> [''final_score'' \<mapsto> PyFloat (Fin 0), ''keyword_score'' \<mapsto> PyFloat (Fin 0),
            ''semantic_score'' \<mapsto> PyFloat (Fin 0), ''matched_keywords'' \<mapsto> PyListOfSet {}]"
    (is "?a \<noteq> ?b")
  proof
    assume "?a = ?b"
    then have "?a ''matched_keywords'' = ?b ''matched_keywords''" by (rule arg_cong)
    then show False by simp
  qed
  from e n d show ?thesis by simp
qed

text \<open>
  A posting that the provider sends without a title is stored with a NULL title, so
  such rows reach the matcher through \<open>get_all_jobs\<close>.
\<close>

lemma insert_job_stores_null_title:
  "\<exists>tbl row. insert_job healthy_env
       [''job_id'' \<mapsto> Some ''j5'',
        ''job_description'' \<mapsto> Some ''Design and testing for mechanical systems'']
       Map.empty = Inr (True, tbl)
     \<and> tbl ''j5'' = Some row \<and> job_title row = None
     \<and> job_description row = Some ''Design and testing for mechanical systems''"
  by (simp add: insert_job_def insert_or_ignore_def dict_get_def truthy_def
      get_connection_def healthy_env_def)

text \<open>
  C2 fails on a posting whose \<open>job_title\<close> is \<open>None\<close>: with a non-empty resume
  text and a non-empty description the call raises \<open>TypeError\<close> in
  \<open>job_description + " " + job_title\<close>, before any score is computed, so no
  \<open>final_score\<close> is returned.
\<close>

theorem match_untitled_posting_raises:
  "r_text sample_resume = Some ''Mechanical design and analysis''
   \<and> untitled_posting ''job_description''
         = Some (Some ''Design and testing for mechanical systems'')
   \<and> untitled_posting ''job_title'' = Some None
   \<and> match_job_to_resume stub_matcher (settings None) sample_resume untitled_posting
         = Inl TypeError"
  by (simp add: match_job_to_resume_def Let_def truthy_def dict_get_default_def
      sample_resume_def untitled_posting_def)

theorem match_untitled_posting_raises_witness:
  "match_job_to_resume stub_matcher (settings None) sample_resume untitled_posting
     = Inl TypeError"
  using match_untitled_posting_raises by blast

text \<open>
  C7 fails on the same defect: with the default weights, which are non-negative and
  sum to 1, a stored row whose title is NULL and whose description is not empty gives
  no result and so no \<open>final_score\<close> in \<open>[0, 100]\<close>; the call raises \<open>TypeError\<close>.
\<close>

theorem match_untitled_row_no_final_score:
  "KEYWORD_WEIGHT (settings None) = Fin (1 / 2)
   \<and> SEMANTIC_WEIGHT (settings None) = Fin (1 / 2)
   \<and> untitled_analyst_posting ''job_title'' = Some None
   \<and> match_job_to_resume stub_matcher (settings None) analyst_resume untitled_analyst_posting
         = Inl TypeError"
  by (simp add: match_job_to_resume_def Let_def truthy_def dict_get_default_def
      analyst_resume_def untitled_analyst_posting_def settings_def)

theorem match_untitled_row_no_final_score_witness:
  "match_job_to_resume stub_matcher (settings None) analyst_resume untitled_analyst_posting
     = Inl TypeError"
  using match_untitled_row_no_final_score by blast

section \<open>Properties of the vocabulary extractor\<close>

lemma sorted_set_props:
  "sorted (sorted_set xs)" "distinct (sorted_set xs)" "set (sorted_set xs) = set xs"
  by (simp_all add: sorted_set_def)

lemma alpha_is_word: "is_alpha_char c \<Longrightarrow> is_word_char c"
  by (simp add: is_word_char_def)

lemma word_boundary_all_word:
  assumes "list_all is_word_char s"
  shows "word_boundary s i \<longleftrightarrow> s \<noteq> [] \<and> (i = 0 \<or> i = length s)"
proof -
  have w: "\<And>n. n < length s \<Longrightarrow> is_word_char (s ! n)"
    using assms by (simp add: list_all_length)
  consider "i = 0" | "0 < i" "i < length s" | "0 < i" "i = length s" | "length s < i"
    by linarith
  then show ?thesis
  proof cases
    case 1
    then show ?thesis using w by (auto simp: word_boundary_def)
  next
    case 2
    then show ?thesis using w by (auto simp: word_boundary_def)
  next
    case 3
    then show ?thesis using w by (auto simp: word_boundary_def)
  next
    case 4
    then show ?thesis by (auto simp: word_boundary_def)
  qed
qed

lemma re_search_word_in_alpha_token:
  assumes tok: "isalpha tok" and k: "k \<noteq> []" and m: "re_search_word k tok"
  shows "k = tok"
proof -
  have allw: "list_all is_word_char tok"
    using tok by (auto simp: isalpha_def list_all_iff intro: alpha_is_word)
  from m obtain i where i: "matches_at k tok i"
    by (auto simp: re_search_word_def list_ex_iff)
  then have b1: "i = 0 \<or> i = length tok"
    and b2: "i + length k = 0 \<or> i + length k = length tok"
    and tk: "take (length k) (drop i tok) = k"
    by (simp_all add: matches_at_def word_boundary_all_word [OF allw])
  from k have "0 < length k" by simp
  with b1 b2 have "i = 0" "length k = length tok" by auto
  with tk show ?thesis by simp
qed

lemma extract_general_keywords_member:
  assumes ne: "[] \<notin> set (common_keywords_lower p)"
    and k: "k \<in> set (extract_general_keywords p txt)"
  shows "k \<in> set (common_keywords_lower p) \<and> isalpha k \<and> 2 < length k
         \<and> (\<exists>model t. nlp p = Some model \<and> t \<in> set (model (lower txt))
                \<and> token_text t = k \<and> \<not> is_stop t)"
proof (cases "nlp p")
  case None
  with k show ?thesis by (simp add: extract_general_keywords_def)
next
  case (Some model)
  define tokens where "tokens = map token_text
      (filter (\<lambda>t. isalpha (token_text t) \<and> \<not> is_stop t \<and> length (token_text t) > 2)
         (model (lower txt)))"
  have tok_alpha: "\<And>tok. tok \<in> set tokens \<Longrightarrow> isalpha tok"
    by (auto simp: tokens_def)
  from k Some have lex: "k \<in> set (common_keywords_lower p)"
    and hit: "k \<in> set tokens \<or> list_ex (\<lambda>tok. re_search_word k tok) tokens"
    by (simp_all add: extract_general_keywords_def Let_def sorted_set_props tokens_def)
  from lex ne have kne: "k \<noteq> []" by auto
  have "k \<in> set tokens"
    using hit
  proof
    assume "k \<in> set tokens"
    then show ?thesis .
  next
    assume "list_ex (\<lambda>tok. re_search_word k tok) tokens"
    then obtain tok where t: "tok \<in> set tokens" "re_search_word k tok"
      by (auto simp: list_ex_iff)
    from re_search_word_in_alpha_token [OF tok_alpha [OF t(1)] kne t(2)] t(1)
    show ?thesis by simp
  qed
  then obtain t where "t \<in> set (model (lower txt))" "token_text t = k"
      "isalpha (token_text t)" "\<not> is_stop t" "2 < length (token_text t)"
    by (auto simp: tokens_def)
  with lex Some show ?thesis by auto
qed

lemma keywords_lexicon_no_empty: "[] \<notin> set (map lower keywords_lexicon)"
  by (simp add: keywords_lexicon_def lower_def)

lemma not_alpha_entries:
  "\<not> isalpha ''supply chain''" "\<not> isalpha ''technical reports''"
  "\<not> isalpha ''problem-solving''"
  by code_simp+

text \<open>
  C10. For the parser the constructor builds and every text, the result of
  \<open>extract_general_keywords\<close> is sorted and free of duplicates, is a subset of the
  lower-cased keyword lexicon, and each of its entries is alphabetic and is the text of
  one token of the lower-cased input. The entries \<open>supply chain\<close>,
  \<open>technical reports\<close> and \<open>problem-solving\<close> are never returned.
\<close>

theorem extract_general_keywords_single_tokens:
  assumes init: "ResumeParser_init spacy_load = Inr p"
    and r: "r = extract_general_keywords p txt"
  shows "sorted r \<and> distinct r
         \<and> set r \<subseteq> set (map lower keywords_lexicon)
         \<and> (\<forall>k \<in> set r. isalpha k
               \<and> (\<exists>model t. nlp p = Some model \<and> t \<in> set (model (lower txt))
                             \<and> token_text t = k))
         \<and> ''supply chain'' \<notin> set r \<and> ''technical reports'' \<notin> set r
         \<and> ''problem-solving'' \<notin> set r"
proof -
  from init have lex: "common_keywords_lower p = map lower keywords_lexicon"
    by (auto simp: ResumeParser_init_def)
  have ne: "[] \<notin> set (common_keywords_lower p)"
    unfolding lex by (rule keywords_lexicon_no_empty)
  have mem: "\<And>k. k \<in> set r \<Longrightarrow> k \<in> set (map lower keywords_lexicon) \<and> isalpha k
               \<and> (\<exists>model t. nlp p = Some model \<and> t \<in> set (model (lower txt))
                             \<and> token_text t = k)"
    using extract_general_keywords_member [OF ne, of _ "txt"] unfolding r lex by blast
  have sd: "sorted r" "distinct r"
    unfolding r by (auto simp: extract_general_keywords_def Let_def sorted_set_props
        split: option.splits)
  from mem not_alpha_entries have "''supply chain'' \<notin> set r" "''technical reports'' \<notin> set r"
      "''problem-solving'' \<notin> set r"
    by blast+
  with sd mem show ?thesis by blast
qed

theorem extract_general_keywords_single_tokens_witness:
  "ResumeParser_init (Inr stub_nlp) = Inr stub_parser
   \<and> extract_general_keywords stub_parser
        ''Technical reports on design and analysis for the supply chain''
      = [''analysis'', ''design'', ''technical'']
   \<and> ''supply chain'' \<notin> set (extract_general_keywords stub_parser
        ''Technical reports on design and analysis for the supply chain'')"
proof -
  have i: "ResumeParser_init (Inr stub_nlp) = Inr stub_parser"
    by (simp add: ResumeParser_init_def stub_parser_def)
  have e: "extract_general_keywords stub_parser
        ''Technical reports on design and analysis for the supply chain''
      = [''analysis'', ''design'', ''technical'']"
    by code_simp
  show ?thesis
    using i e extract_general_keywords_single_tokens [OF i refl,
        of "''Technical reports on design and analysis for the supply chain''"]
    by blast
qed

text \<open>
  C6 (as amended). When loading the spaCy model raises, the constructor of
  \<open>ResumeParser\<close> still returns a parser, with \<open>nlp\<close> unset, and every later call
  of \<open>extract_general_keywords\<close> on it returns the empty list.
\<close>

theorem resume_parser_load_failure:
  "\<exists>p. ResumeParser_init (Inl e) = Inr p \<and> nlp p = None
       \<and> (\<forall>txt. extract_general_keywords p txt = [])"
  by (simp add: ResumeParser_init_def extract_general_keywords_def)

theorem resume_parser_load_failure_witness:
  "\<exists>p. ResumeParser_init (Inl OSError) = Inr p \<and> nlp p = None
       \<and> extract_general_keywords p ''Design and analysis'' = []"
  using resume_parser_load_failure [of OSError] by blast

text \<open>
  C6 (as stated) fails: with a failing model load the constructor succeeds, and the
  parser it returns finds no keyword in a text in which a loaded parser finds two.
\<close>

theorem resume_parser_load_failure_counterexample:
  "ResumeParser_init (Inl OSError) = Inr unloaded_parser
   \<and> extract_general_keywords unloaded_parser ''Design and analysis'' = []
   \<and> extract_general_keywords stub_parser ''Design and analysis'' = [''analysis'', ''design'']"
proof -
  have a: "ResumeParser_init (Inl OSError) = Inr unloaded_parser"
    by (simp add: ResumeParser_init_def unloaded_parser_def stub_parser_def)
  have b: "extract_general_keywords unloaded_parser ''Design and analysis'' = []"
    by (simp add: extract_general_keywords_def unloaded_parser_def)
  have c: "extract_general_keywords stub_parser ''Design and analysis'' = [''analysis'', ''design'']"
    by code_simp
  from a b c show ?thesis by simp
qed


lemma word_boundary_append:
  "word_boundary (pre @ post) (length pre)
     \<longleftrightarrow> ((pre \<noteq> [] \<and> is_word_char (last pre)) \<noteq> (post \<noteq> [] \<and> is_word_char (hd post)))"
proof -
  have l: "pre \<noteq> [] \<Longrightarrow> (pre @ post) ! (length pre - 1) = last pre"
    by (simp add: nth_append last_conv_nth)
  have r: "post \<noteq> [] \<Longrightarrow> (pre @ post) ! length pre = hd post"
    by (simp add: nth_append hd_conv_nth)
  show ?thesis
  proof (cases "pre = []")
    case True
    then show ?thesis using r by (cases "post = []") (auto simp: word_boundary_def)
  next
    case False
    then show ?thesis using l r by (cases "post = []") (auto simp: word_boundary_def)
  qed
qed

lemma re_search_word_split:
  "re_search_word pat s \<longleftrightarrow>
     (\<exists>pre post. s = pre @ pat @ post \<and> word_boundary s (length pre)
        \<and> word_boundary s (length pre + length pat))"
proof
  assume "re_search_word pat s"
  then have "\<exists>i. i \<le> length s \<and> matches_at pat s i"
    unfolding re_search_word_def list_ex_iff
    by (metis atLeastLessThan_iff less_Suc_eq_le set_upt)
  then obtain i where i: "i \<le> length s" and m: "matches_at pat s i"
    by blast
  from m have tk: "take (length pat) (drop i s) = pat"
    and b: "word_boundary s i" "word_boundary s (i + length pat)"
    by (simp_all add: matches_at_def)
  have "take i s @ (take (length pat) (drop i s) @ drop (length pat) (drop i s)) = s"
    by (simp only: append_take_drop_id)
  then have s: "s = take i s @ pat @ drop (length pat) (drop i s)"
    by (simp only: tk)
  have len: "length (take i s) = i" using i by simp
  show "\<exists>pre post. s = pre @ pat @ post \<and> word_boundary s (length pre)
        \<and> word_boundary s (length pre + length pat)"
    using s b len by metis
next
  assume "\<exists>pre post. s = pre @ pat @ post \<and> word_boundary s (length pre)
        \<and> word_boundary s (length pre + length pat)"
  then obtain pre post where s: "s = pre @ pat @ post"
    and b: "word_boundary s (length pre)" "word_boundary s (length pre + length pat)"
    by blast
  have "take (length pat) (drop (length pre) s) = pat" by (simp add: s)
  with b have "matches_at pat s (length pre)" by (simp add: matches_at_def)
  moreover have "length pre \<in> set [0..<Suc (length s)]" by (simp add: s)
  ultimately show "re_search_word pat s"
    unfolding re_search_word_def list_ex_iff by blast
qed

lemma re_search_word_whole:
  assumes ne: "pat \<noteq> []" and h: "is_word_char (hd pat)" and l: "is_word_char (last pat)"
  shows "re_search_word pat s \<longleftrightarrow>
     (\<exists>pre post. s = pre @ pat @ post
        \<and> (pre = [] \<or> \<not> is_word_char (last pre))
        \<and> (post = [] \<or> \<not> is_word_char (hd post)))"
proof -
  have start: "word_boundary (pre @ pat @ post) (length pre)
                 \<longleftrightarrow> (pre = [] \<or> \<not> is_word_char (last pre))" for pre post
    using word_boundary_append [of pre "pat @ post"] ne h by auto
  have stop: "word_boundary (pre @ pat @ post) (length pre + length pat)
                \<longleftrightarrow> (post = [] \<or> \<not> is_word_char (hd post))" for pre post
    using word_boundary_append [of "pre @ pat" post] ne l by auto
  show ?thesis
    unfolding re_search_word_split using start stop by metis
qed

lemma extract_skills_set:
  "set (extract_skills p t) =
     {skill \<in> set (common_skills_lower p). re_search_word skill (lower t)}"
  by (simp add: extract_skills_def Let_def sorted_set_props)

text \<open>
  For an entry that begins and ends with a word character the match is a whole-word
  match: the entry is returned exactly when it occurs with no word character directly
  before or after it. Texts that differ only in case give the same result, and the
  texts of the specification's scenario evaluate as it says.
\<close>

lemma extract_skills_word_edged:
  assumes ne: "skill \<noteq> []" and h: "is_word_char (hd skill)" and l: "is_word_char (last skill)"
  shows "(skill \<in> set (extract_skills p t) \<longleftrightarrow>
            skill \<in> set (common_skills_lower p)
            \<and> (\<exists>pre post. lower t = pre @ skill @ post
                  \<and> (pre = [] \<or> \<not> is_word_char (last pre))
                  \<and> (post = [] \<or> \<not> is_word_char (hd post))))
         \<and> sorted (extract_skills p t) \<and> distinct (extract_skills p t)
         \<and> (lower t = lower t' \<longrightarrow> extract_skills p t = extract_skills p t')
         \<and> (ResumeParser_init spacy_load = Inr q \<longrightarrow>
               extract_skills q ''I am proficient in AutoCAD and CAD modeling''
                 = [''autocad'', ''cad''])
         \<and> extract_skills (p\<lparr>common_skills_lower := map lower [''CAD'']\<rparr>)
               ''I am proficient in AutoCAD and CAD modeling'' = [''cad'']
         \<and> extract_skills (p\<lparr>common_skills_lower := map lower [''CAD'']\<rparr>)
               ''I am proficient in AutoCAD modeling'' = []"
proof (intro conjI impI)
  show "skill \<in> set (extract_skills p t) \<longleftrightarrow>
            skill \<in> set (common_skills_lower p)
            \<and> (\<exists>pre post. lower t = pre @ skill @ post
                  \<and> (pre = [] \<or> \<not> is_word_char (last pre))
                  \<and> (post = [] \<or> \<not> is_word_char (hd post)))"
    by (simp add: extract_skills_set re_search_word_whole [OF ne h l])
  show "sorted (extract_skills p t)" "distinct (extract_skills p t)"
    by (simp_all add: extract_skills_def Let_def sorted_set_props)
  show "extract_skills p t = extract_skills p t'" if "lower t = lower t'"
    using that by (simp add: extract_skills_def)
  have full: "sorted_set (filter (\<lambda>skill. re_search_word skill
                  (lower ''I am proficient in AutoCAD and CAD modeling''))
                (map lower skills_lexicon)) = [''autocad'', ''cad'']"
    by code_simp
  show "extract_skills q ''I am proficient in AutoCAD and CAD modeling''
          = [''autocad'', ''cad'']"
    if "ResumeParser_init spacy_load = Inr q"
  proof -
    from that have "common_skills_lower q = map lower skills_lexicon"
      by (auto simp: ResumeParser_init_def)
    then show ?thesis
      by (simp only: extract_skills_def Let_def full)
  qed
  have one: "sorted_set (filter (\<lambda>skill. re_search_word skill
                  (lower ''I am proficient in AutoCAD and CAD modeling''))
                (map lower [''CAD''])) = [''cad'']"
    by code_simp
  have none: "sorted_set (filter (\<lambda>skill. re_search_word skill
                  (lower ''I am proficient in AutoCAD modeling''))
                (map lower [''CAD''])) = []"
    by code_simp
  have sel: "common_skills_lower (p\<lparr>common_skills_lower := map lower [''CAD'']\<rparr>)
               = map lower [''CAD'']"
    by simp
  show "extract_skills (p\<lparr>common_skills_lower := map lower [''CAD'']\<rparr>)
               ''I am proficient in AutoCAD and CAD modeling'' = [''cad'']"
    by (simp only: extract_skills_def Let_def sel one)
  show "extract_skills (p\<lparr>common_skills_lower := map lower [''CAD'']\<rparr>)
               ''I am proficient in AutoCAD modeling'' = []"
    by (simp only: extract_skills_def Let_def sel none)
qed

text \<open>
  C8 fails on the lexicon entry \<open>C++\<close>: the pattern ends with \<open>\b\<close> after a
  non-word character, so the entry is not found where it stands as a word of its own
  and is found where a word character follows it.
\<close>

theorem extract_skills_cpp_not_whole_word:
  "''c++'' \<in> set (common_skills_lower stub_parser)
   \<and> extract_skills stub_parser ''I code in C++'' = []
   \<and> extract_skills stub_parser ''c++11'' = [''c++'']"
proof -
  have a: "''c++'' \<in> set (common_skills_lower stub_parser)"
    by code_simp
  have b: "extract_skills stub_parser ''I code in C++'' = []"
    by code_simp
  have c: "extract_skills stub_parser ''c++11'' = [''c++'']"
    by code_simp
  from a b c show ?thesis by simp
qed

theorem extract_skills_cpp_not_whole_word_witness:
  "extract_skills stub_parser ''I code in C++'' = []"
  using extract_skills_cpp_not_whole_word by blast

text \<open>A letter beyond ASCII before \<open>cad\<close> makes one longer word of the two.\<close>

lemma extract_skills_latin1_example:
  "extract_skills stub_parser (CHR 0xE9 # ''cad'') = []"
  by code_simp



end
